theory Spec2Isabelle
  imports Main "HOL-Library.Char_ord" "HOL-Library.List_Lexorder" "HOL-Library.AList"
begin

section \<open>Operations (poc/server/ot-service.js)\<close>

text \<open>
  Identifiers produced by \<^verbatim>\<open>uuidv4()\<close> are strings. The random generator is an explicit
  source: \<open>g k\<close> is the value returned by call number \<open>k\<close>, and every function that
  constructs operations takes the number \<open>n\<close> of calls made so far and returns the number
  made afterwards.
\<close>

type_synonym uuid = string
type_synonym uuid_source = "nat \<Rightarrow> uuid"

text \<open>
  \<^verbatim>\<open>class DocumentOperation\<close>. JavaScript numbers are modelled as integers (positions and
  lengths may be negative, nothing in the class restricts them); \<^verbatim>\<open>content\<close>,
  \<^verbatim>\<open>length\<close> and \<^verbatim>\<open>clientId\<close> may be undefined or null. Strings are lists of
  code units.
\<close>

record DocumentOperation =
  type_op :: string
  position :: int
  content :: "string option"
  length_op :: "int option"
  userId :: string
  timestamp :: int
  clientId :: "string option"
  id_op :: uuid
  version_op :: int
  applied :: bool

text \<open>The constructor; \<open>u\<close> is the result of its \<^verbatim>\<open>uuidv4()\<close> call.\<close>

definition new_DocumentOperation ::
  "uuid \<Rightarrow> string \<Rightarrow> int \<Rightarrow> string option \<Rightarrow> int option \<Rightarrow> string \<Rightarrow> int \<Rightarrow> string option
     \<Rightarrow> DocumentOperation" where
  "new_DocumentOperation u ty pos c l uid ts cid =
     \<lparr>type_op = ty, position = pos, content = c, length_op = l, userId = uid,
      timestamp = ts, clientId = cid, id_op = u, version_op = 1, applied = False\<rparr>"

text \<open>\<^verbatim>\<open>clone()\<close>: a new object (one \<^verbatim>\<open>uuidv4()\<close> call) whose id, version and applied
  flag are then overwritten with the original's.\<close>

definition clone :: "uuid_source \<Rightarrow> nat \<Rightarrow> DocumentOperation \<Rightarrow> DocumentOperation \<times> nat" where
  "clone g n this =
     ((new_DocumentOperation (g n) (type_op this) (position this) (content this)
         (length_op this) (userId this) (timestamp this) (clientId this))
        \<lparr>id_op := id_op this, version_op := version_op this, applied := applied this\<rparr>,
      Suc n)"

text \<open>\<^verbatim>\<open>(op.length || 0)\<close>, \<^verbatim>\<open>(op.content?.length || 0)\<close> and \<^verbatim>\<open>(op.content || '')\<close>.\<close>

definition length_or_0 :: "DocumentOperation \<Rightarrow> int" where
  "length_or_0 op = (case length_op op of None \<Rightarrow> 0 | Some l \<Rightarrow> l)"

definition content_length_or_0 :: "DocumentOperation \<Rightarrow> int" where
  "content_length_or_0 op = (case content op of None \<Rightarrow> 0 | Some c \<Rightarrow> int (length c))"

definition content_or_empty :: "DocumentOperation \<Rightarrow> string" where
  "content_or_empty op = (case content op of None \<Rightarrow> [] | Some c \<Rightarrow> c)"

text \<open>
  The expression that recurs in every transform case,
  \<^verbatim>\<open>new DocumentOperation(op.type, pos, op.content, len, op.userId, op.timestamp, op.clientId)\<close>.
\<close>

definition rebuilt :: "uuid \<Rightarrow> DocumentOperation \<Rightarrow> int \<Rightarrow> int option \<Rightarrow> DocumentOperation" where
  "rebuilt u op pos len =
     new_DocumentOperation u (type_op op) pos (content op) len (userId op) (timestamp op) (clientId op)"

subsection \<open>String.prototype.slice\<close>

text \<open>A negative index counts from the end of the string; every index is clamped to the
  string; an empty string results when the start is not before the end.\<close>

definition slice_index :: "nat \<Rightarrow> int \<Rightarrow> nat" where
  "slice_index n i = (if i < 0 then nat (max (int n + i) 0) else min (nat i) n)"

definition slice2 :: "string \<Rightarrow> int \<Rightarrow> int \<Rightarrow> string" where
  "slice2 s b e =
     (let from = slice_index (length s) b; to = slice_index (length s) e
      in take (to - from) (drop from s))"

definition slice1 :: "string \<Rightarrow> int \<Rightarrow> string" where
  "slice1 s b = drop (slice_index (length s) b) s"

subsection \<open>Pairwise transformation\<close>

type_synonym transformed = "DocumentOperation option \<times> DocumentOperation option \<times> nat"

definition transformInsertInsert ::
  "uuid_source \<Rightarrow> nat \<Rightarrow> DocumentOperation \<Rightarrow> DocumentOperation \<Rightarrow> bool \<Rightarrow> transformed" where
  "transformInsertInsert g n op1 op2 op1HasPriority =
     (if position op1 < position op2 \<or> (position op1 = position op2 \<and> op1HasPriority)
      then (Some op1,
            Some (rebuilt (g n) op2 (position op2 + content_length_or_0 op1) (length_op op2)),
            Suc n)
      else (Some (rebuilt (g n) op1 (position op1 + content_length_or_0 op2) (length_op op1)),
            Some op2, Suc n))"

definition transformInsertDelete ::
  "uuid_source \<Rightarrow> nat \<Rightarrow> DocumentOperation \<Rightarrow> DocumentOperation \<Rightarrow> transformed" where
  "transformInsertDelete g n op1 op2 =
     (if position op1 \<le> position op2
      then (Some op1,
            Some (rebuilt (g n) op2 (position op2 + content_length_or_0 op1) (length_op op2)),
            Suc n)
      else if position op1 \<ge> position op2 + length_or_0 op2
      then (Some (rebuilt (g n) op1 (position op1 - length_or_0 op2) (length_op op1)),
            Some op2, Suc n)
      else (Some (rebuilt (g n) op1 (position op2) (length_op op1)), Some op2, Suc n))"

definition transformInsertReplace ::
  "uuid_source \<Rightarrow> nat \<Rightarrow> DocumentOperation \<Rightarrow> DocumentOperation \<Rightarrow> transformed" where
  "transformInsertReplace g n op1 op2 =
     (if position op1 \<le> position op2
      then (Some op1,
            Some (rebuilt (g n) op2 (position op2 + content_length_or_0 op1) (length_op op2)),
            Suc n)
      else if position op1 \<ge> position op2 + length_or_0 op2
      then (Some (rebuilt (g n) op1
                    (position op1 - length_or_0 op2 + content_length_or_0 op2) (length_op op1)),
            Some op2, Suc n)
      else (Some (rebuilt (g n) op1 (position op2 + content_length_or_0 op2) (length_op op1)),
            Some op2, Suc n))"

definition transformDeleteInsert ::
  "uuid_source \<Rightarrow> nat \<Rightarrow> DocumentOperation \<Rightarrow> DocumentOperation \<Rightarrow> transformed" where
  "transformDeleteInsert g n op1 op2 =
     (if position op2 \<le> position op1
      then (Some (rebuilt (g n) op1 (position op1 + content_length_or_0 op2) (length_op op1)),
            Some op2, Suc n)
      else if position op2 \<ge> position op1 + length_or_0 op1
      then (Some op1,
            Some (rebuilt (g n) op2 (position op2 - length_or_0 op1) (length_op op2)),
            Suc n)
      else (Some op1, Some (rebuilt (g n) op2 (position op1) (length_op op2)), Suc n))"

definition transformDeleteDelete ::
  "uuid_source \<Rightarrow> nat \<Rightarrow> DocumentOperation \<Rightarrow> DocumentOperation \<Rightarrow> transformed" where
  "transformDeleteDelete g n op1 op2 =
     (if position op1 + length_or_0 op1 \<le> position op2
      then (Some op1,
            Some (rebuilt (g n) op2 (position op2 - length_or_0 op1) (length_op op2)),
            Suc n)
      else if position op2 + length_or_0 op2 \<le> position op1
      then (Some (rebuilt (g n) op1 (position op1 - length_or_0 op2) (length_op op1)),
            Some op2, Suc n)
      else
        (let op1Start = position op1;
             op1End = position op1 + length_or_0 op1;
             op2Start = position op2;
             op2End = position op2 + length_or_0 op2;
             overlapStart = max op1Start op2Start;
             overlapEnd = min op1End op2End;
             overlapLength = max 0 (overlapEnd - overlapStart);
             newOp1 = rebuilt (g n) op1 (position op1)
                        (Some (max 0 (length_or_0 op1 - overlapLength)));
             newOp2 = rebuilt (g (Suc n)) op2 (position op2)
                        (Some (max 0 (length_or_0 op2 - overlapLength)))
         in (if length_or_0 newOp1 > 0 then Some newOp1 else None,
             if length_or_0 newOp2 > 0 then Some newOp2 else None,
             Suc (Suc n))))"

definition transformDeleteReplace ::
  "uuid_source \<Rightarrow> nat \<Rightarrow> DocumentOperation \<Rightarrow> DocumentOperation \<Rightarrow> transformed" where
  "transformDeleteReplace g n op1 op2 =
     (if position op1 + length_or_0 op1 \<le> position op2
      then (Some op1,
            Some (rebuilt (g n) op2 (position op2 - length_or_0 op1) (length_op op2)),
            Suc n)
      else if position op2 + length_or_0 op2 \<le> position op1
      then (Some (rebuilt (g n) op1
                    (position op1 - length_or_0 op2 + content_length_or_0 op2) (length_op op1)),
            Some op2, Suc n)
      else
        (let overlap = min (position op1 + length_or_0 op1) (position op2 + length_or_0 op2)
                         - max (position op1) (position op2)
         in (Some (rebuilt (g n) op1 (position op1) (Some (max 0 (length_or_0 op1 - overlap)))),
             Some op2, Suc n)))"

definition transformReplaceInsert ::
  "uuid_source \<Rightarrow> nat \<Rightarrow> DocumentOperation \<Rightarrow> DocumentOperation \<Rightarrow> transformed" where
  "transformReplaceInsert g n op1 op2 =
     (if position op2 \<le> position op1
      then (Some (rebuilt (g n) op1 (position op1 + content_length_or_0 op2) (length_op op1)),
            Some op2, Suc n)
      else if position op2 \<ge> position op1 + length_or_0 op1
      then (Some op1,
            Some (rebuilt (g n) op2
                    (position op2 - length_or_0 op1 + content_length_or_0 op1) (length_op op2)),
            Suc n)
      else (Some op1,
            Some (rebuilt (g n) op2 (position op1 + content_length_or_0 op1) (length_op op2)),
            Suc n))"

definition transformReplaceDelete ::
  "uuid_source \<Rightarrow> nat \<Rightarrow> DocumentOperation \<Rightarrow> DocumentOperation \<Rightarrow> transformed" where
  "transformReplaceDelete g n op1 op2 =
     (if position op2 + length_or_0 op2 \<le> position op1
      then (Some (rebuilt (g n) op1 (position op1 - length_or_0 op2) (length_op op1)),
            Some op2, Suc n)
      else if position op1 + length_or_0 op1 \<le> position op2
      then (Some op1,
            Some (rebuilt (g n) op2
                    (position op2 - length_or_0 op1 + content_length_or_0 op1) (length_op op2)),
            Suc n)
      else
        (let overlap = min (position op1 + length_or_0 op1) (position op2 + length_or_0 op2)
                         - max (position op1) (position op2)
         in (Some op1,
             Some (rebuilt (g n) op2 (position op1) (Some (max 0 (length_or_0 op2 - overlap)))),
             Suc n)))"

definition transformReplaceReplace ::
  "uuid_source \<Rightarrow> nat \<Rightarrow> DocumentOperation \<Rightarrow> DocumentOperation \<Rightarrow> bool \<Rightarrow> transformed" where
  "transformReplaceReplace g n op1 op2 op1HasPriority =
     (if position op1 + length_or_0 op1 \<le> position op2
      then (Some op1,
            Some (rebuilt (g n) op2
                    (position op2 - length_or_0 op1 + content_length_or_0 op1) (length_op op2)),
            Suc n)
      else if position op2 + length_or_0 op2 \<le> position op1
      then (Some (rebuilt (g n) op1
                    (position op1 - length_or_0 op2 + content_length_or_0 op2) (length_op op1)),
            Some op2, Suc n)
      else if op1HasPriority then (Some op1, None, n)
      else (None, Some op2, n))"

text \<open>\<^verbatim>\<open>transform\<close>: the switch is on the string \<^verbatim>\<open>`${op1.type}-${op2.type}`\<close>.\<close>

definition transform ::
  "uuid_source \<Rightarrow> nat \<Rightarrow> DocumentOperation \<Rightarrow> DocumentOperation \<Rightarrow> bool \<Rightarrow> transformed" where
  "transform g n op1 op2 op1HasPriority =
     (if id_op op1 = id_op op2 then (Some op1, None, n)
      else
        (let key = type_op op1 @ ''-'' @ type_op op2 in
         if key = ''insert-insert'' then transformInsertInsert g n op1 op2 op1HasPriority
         else if key = ''insert-delete'' then transformInsertDelete g n op1 op2
         else if key = ''insert-replace'' then transformInsertReplace g n op1 op2
         else if key = ''delete-insert'' then transformDeleteInsert g n op1 op2
         else if key = ''delete-delete'' then transformDeleteDelete g n op1 op2
         else if key = ''delete-replace'' then transformDeleteReplace g n op1 op2
         else if key = ''replace-insert'' then transformReplaceInsert g n op1 op2
         else if key = ''replace-delete'' then transformReplaceDelete g n op1 op2
         else if key = ''replace-replace'' then transformReplaceReplace g n op1 op2 op1HasPriority
         else (Some op1, Some op2, n)))"

subsection \<open>Transformation against a sequence\<close>

text \<open>The \<^verbatim>\<open>for\<close> loop of \<^verbatim>\<open>transformAgainstOperations\<close>; \<^verbatim>\<open>userId\<close>s are
  compared as strings.\<close>

fun transformAgainst_loop ::
  "uuid_source \<Rightarrow> nat \<Rightarrow> DocumentOperation \<Rightarrow> DocumentOperation list
     \<Rightarrow> DocumentOperation option \<times> nat" where
  "transformAgainst_loop g n transformedOp [] = (Some transformedOp, n)"
| "transformAgainst_loop g n transformedOp (op # operations) =
     (if timestamp op < timestamp transformedOp
         \<or> (timestamp op = timestamp transformedOp \<and> userId op < userId transformedOp)
      then (case transform g n transformedOp op False of
              (Some newOp, _, n') \<Rightarrow> transformAgainst_loop g n' newOp operations
            | (None, _, n') \<Rightarrow> (None, n'))
      else transformAgainst_loop g n transformedOp operations)"

definition transformAgainstOperations ::
  "uuid_source \<Rightarrow> nat \<Rightarrow> DocumentOperation \<Rightarrow> DocumentOperation list
     \<Rightarrow> DocumentOperation option \<times> nat" where
  "transformAgainstOperations g n operation operations =
     (case clone g n operation of
        (transformedOp, n') \<Rightarrow> transformAgainst_loop g n' transformedOp operations)"

subsection \<open>Application\<close>

text \<open>\<^verbatim>\<open>applyOperation\<close>; the operation may be null.\<close>

definition applyOperation :: "string \<Rightarrow> DocumentOperation option \<Rightarrow> string" where
  "applyOperation text operation =
     (case operation of
        None \<Rightarrow> text
      | Some op \<Rightarrow>
          if applied op then text
          else if type_op op = ''insert'' then
            slice2 text 0 (position op) @ content_or_empty op @ slice1 text (position op)
          else if type_op op = ''delete'' then
            slice2 text 0 (position op) @ slice1 text (position op + length_or_0 op)
          else if type_op op = ''replace'' then
            slice2 text 0 (position op) @ content_or_empty op
              @ slice1 text (position op + length_or_0 op)
          else if type_op op = ''retain'' then text
          else text)"

subsection \<open>Merging\<close>

text \<open>\<^verbatim>\<open>Array.prototype.sort\<close> with a comparator is stable: an element moves in front of
  another only when the comparator is positive for the pair in their original order.\<close>

fun insort_cmp :: "('a \<Rightarrow> 'a \<Rightarrow> int) \<Rightarrow> 'a \<Rightarrow> 'a list \<Rightarrow> 'a list" where
  "insort_cmp cmp x [] = [x]"
| "insort_cmp cmp x (y # ys) = (if cmp x y \<le> 0 then x # y # ys else y # insort_cmp cmp x ys)"

definition sort_cmp :: "('a \<Rightarrow> 'a \<Rightarrow> int) \<Rightarrow> 'a list \<Rightarrow> 'a list" where
  "sort_cmp cmp xs = foldr (insort_cmp cmp) xs []"

text \<open>The \<^verbatim>\<open>for\<close> loop of \<^verbatim>\<open>mergeOperations\<close> over \<^verbatim>\<open>sortedOps[1..]\<close>.\<close>

fun merge_loop ::
  "uuid_source \<Rightarrow> nat \<Rightarrow> DocumentOperation \<Rightarrow> DocumentOperation list \<Rightarrow> DocumentOperation list
     \<Rightarrow> DocumentOperation list \<times> nat" where
  "merge_loop g n current merged [] = (merged @ [current], n)"
| "merge_loop g n current merged (op # rest) =
     (if type_op current = type_op op \<and> type_op current = ''insert''
         \<and> position current + content_length_or_0 current = position op
         \<and> userId current = userId op
      then merge_loop g n
             (current\<lparr>content := Some (content_or_empty current @ content_or_empty op)\<rparr>)
             merged rest
      else if type_op current = type_op op \<and> type_op current = ''delete''
         \<and> position current = position op \<and> userId current = userId op
      then merge_loop g n
             (current\<lparr>length_op := Some (length_or_0 current + length_or_0 op)\<rparr>) merged rest
      else (case clone g n op of (c, n') \<Rightarrow> merge_loop g n' c (merged @ [current]) rest))"

text \<open>
  \<^verbatim>\<open>mergeOperations\<close> returns null, one operation or an array; its only caller pushes
  whatever it gets onto one array, so the result is given here as that list: empty for null,
  a singleton for one operation.
\<close>

definition mergeOperations ::
  "uuid_source \<Rightarrow> nat \<Rightarrow> DocumentOperation list \<Rightarrow> DocumentOperation list \<times> nat" where
  "mergeOperations g n operations =
     (case operations of
        [] \<Rightarrow> ([], n)
      | [op] \<Rightarrow> ([op], n)
      | _ \<Rightarrow>
        (case sort_cmp (\<lambda>a b. if position a \<noteq> position b then position a - position b
                               else timestamp a - timestamp b) operations of
           [] \<Rightarrow> ([], n)
         | first # rest \<Rightarrow>
             (case clone g n first of (current, n') \<Rightarrow> merge_loop g n' current [] rest)))"

section \<open>The document manager (poc/server/enhanced-document-manager.js)\<close>

text \<open>
  A user is the record made by \<^verbatim>\<open>generateDummyUser\<close>; the session kept in
  \<^verbatim>\<open>userSessions\<close> adds the document and the socket. The wall-clock strings
  (\<^verbatim>\<open>createdAt\<close>, \<^verbatim>\<open>updatedAt\<close>, \<^verbatim>\<open>joinedAt\<close>, \<^verbatim>\<open>lastSaved\<close>) and the
  cursors are left out.
\<close>

record user =
  id_user :: string
  name :: string
  color :: string
  avatar :: string

record user_session = user +
  documentId :: string
  socketId :: string

record doc_metadata =
  createdBy :: "string option"
  lastModifiedBy :: "string option"
  wordCount :: nat
  characterCount :: nat
  status :: string

text \<open>\<^verbatim>\<open>activeUsers\<close> is a JavaScript Map, kept in insertion order.\<close>

record Document =
  id_doc :: string
  title :: string
  content_doc :: string
  operations :: "DocumentOperation list"
  version_doc :: int
  activeUsers :: "(string \<times> user) list"
  metadata :: doc_metadata

text \<open>
  What \<^verbatim>\<open>documentsDir/<id>.json\<close> holds: nothing but white space, text that
  \<^verbatim>\<open>JSON.parse\<close> rejects, a file that cannot be read, or the snapshot of a document.
\<close>

datatype stored_file = EmptyFile | InvalidJson | Unreadable | Snapshot Document

datatype error = IOError | SyntaxError | TypeError

text \<open>Messages handed to socket.io: the room, the socket left out (for \<^verbatim>\<open>socket.to\<close>),
  and the payload.\<close>

datatype event =
    OperationImmediate string string DocumentOperation string "user_session option"
  | DocumentSync string string int "DocumentOperation list" doc_metadata
  | UserLeft string string user_session
  | UsersUpdated string "(string \<times> user) list"
  | ErrorMessage string string

text \<open>
  The manager's maps, the files of the documents directory, whether writing to that
  directory currently fails, the number of \<^verbatim>\<open>uuidv4()\<close> calls made, and the messages
  sent so far. A pending debounce timeout is represented by the socket its callback holds.
\<close>

record manager =
  activeDocuments :: "string \<rightharpoonup> Document"
  operationQueues :: "string \<rightharpoonup> DocumentOperation list"
  debouncedSaves :: "string \<rightharpoonup> string"
  userSessions :: "string \<rightharpoonup> user_session"
  files :: "string \<rightharpoonup> stored_file"
  write_fails :: bool
  uuid_count :: nat
  emitted :: "event list"

text \<open>\<^verbatim>\<open>saveDocument\<close>: the temporary file is renamed over the snapshot, or the error is
  rethrown and the snapshot stays as it was.\<close>

definition saveDocument :: "manager \<Rightarrow> Document \<Rightarrow> (error + unit) \<times> manager" where
  "saveDocument st document =
     (if write_fails st then (Inl IOError, st)
      else (Inr (), st\<lparr>files := (files st)(id_doc document \<mapsto> Snapshot document)\<rparr>))"

definition createDocument ::
  "uuid_source \<Rightarrow> manager \<Rightarrow> string \<Rightarrow> string option \<Rightarrow> (error + Document) \<times> manager" where
  "createDocument g st title' userId' =
     (let docId = g (uuid_count st);
          st1 = st\<lparr>uuid_count := Suc (uuid_count st)\<rparr>;
          document = \<lparr>id_doc = docId, title = title', content_doc = [], operations = [],
                      version_doc = 1, activeUsers = [],
                      metadata = \<lparr>createdBy = userId', lastModifiedBy = userId', wordCount = 0,
                                  characterCount = 0, status = ''draft''\<rparr>\<rparr>
      in case saveDocument st1 document of
           (Inl e, st2) \<Rightarrow> (Inl e, st2)
         | (Inr _, st2) \<Rightarrow>
             (Inr document,
              st2\<lparr>activeDocuments := (activeDocuments st2)(docId \<mapsto> document),
                  operationQueues := (operationQueues st2)(docId \<mapsto> [])\<rparr>))"

text \<open>
  \<^verbatim>\<open>loadDocument\<close>. An exception inside the \<^verbatim>\<open>try\<close> block that is not a SyntaxError
  makes it return null; the \<^verbatim>\<open>createDocument\<close> call of the \<^verbatim>\<open>catch\<close> block is
  outside the \<^verbatim>\<open>try\<close>, so its exception leaves the function.
\<close>

definition loadDocument ::
  "uuid_source \<Rightarrow> manager \<Rightarrow> string \<Rightarrow> (error + Document option) \<times> manager" where
  "loadDocument g st docId =
     (case activeDocuments st docId of
        Some document \<Rightarrow> (Inr (Some document), st)
      | None \<Rightarrow>
        (case files st docId of
           None \<Rightarrow>
             (case createDocument g st (''Document '' @ docId) None of
                (Inl e, st') \<Rightarrow> (Inr None, st')
              | (Inr document, st') \<Rightarrow> (Inr (Some document), st'))
         | Some Unreadable \<Rightarrow> (Inr None, st)
         | Some EmptyFile \<Rightarrow>
             (case createDocument g st (''Document '' @ docId) None of
                (Inl e, st') \<Rightarrow> (Inr None, st')
              | (Inr document, st') \<Rightarrow> (Inr (Some document), st'))
         | Some InvalidJson \<Rightarrow>
             (case createDocument g st (''Document '' @ docId) None of
                (Inl e, st') \<Rightarrow> (Inl e, st')
              | (Inr document, st') \<Rightarrow> (Inr (Some document), st'))
         | Some (Snapshot document) \<Rightarrow>
             (Inr (Some document),
              st\<lparr>operationQueues :=
                    (case operationQueues st docId of
                       None \<Rightarrow> (operationQueues st)(docId \<mapsto> [])
                     | Some _ \<Rightarrow> operationQueues st),
                 activeDocuments := (activeDocuments st)(docId \<mapsto> document)\<rparr>)))"

subsection \<open>The operation pipeline\<close>

text \<open>\<^verbatim>\<open>applyOperationImmediate\<close>: \<^verbatim>\<open>document.operations.slice(-10)\<close> is the last
  ten operations; the message goes to the room named by the document's own id, to every
  socket but the sender's.\<close>

definition applyOperationImmediate ::
  "uuid_source \<Rightarrow> manager \<Rightarrow> Document \<Rightarrow> DocumentOperation \<Rightarrow> string
     \<Rightarrow> DocumentOperation option \<times> manager" where
  "applyOperationImmediate g st document operation socket =
     (let recentOps = drop (length (operations document) - 10) (operations document) in
      case transformAgainstOperations g (uuid_count st) operation recentOps of
        (None, n') \<Rightarrow> (None, st\<lparr>uuid_count := n'\<rparr>)
      | (Some transformedOp, n') \<Rightarrow>
          (let tempContent = applyOperation (content_doc document) (Some transformedOp) in
           (Some transformedOp,
            st\<lparr>uuid_count := n',
               emitted := emitted st @
                 [OperationImmediate (id_doc document) socket transformedOp tempContent
                    (userSessions st socket)]\<rparr>)))"

text \<open>\<^verbatim>\<open>queueOperation\<close>: the new timeout replaces the one pending for the document.\<close>

definition queueOperation ::
  "uuid_source \<Rightarrow> manager \<Rightarrow> string \<Rightarrow> DocumentOperation \<Rightarrow> string
     \<Rightarrow> DocumentOperation option \<times> manager" where
  "queueOperation g st documentId' operation socket =
     (case activeDocuments st documentId' of
        None \<Rightarrow> (None, st)
      | Some document \<Rightarrow>
          (let queue = (case operationQueues st documentId' of None \<Rightarrow> [] | Some q \<Rightarrow> q);
               st1 = st\<lparr>operationQueues := (operationQueues st)(documentId' \<mapsto> queue @ [operation]),
                        debouncedSaves := (debouncedSaves st)(documentId' \<mapsto> socket)\<rparr>
           in applyOperationImmediate g st1 document operation socket))"

text \<open>Grouping the queue by \<^verbatim>\<open>userId\<close> in a Map: groups in the order of each user's
  first operation, each group in queue order.\<close>

fun add_to_group ::
  "DocumentOperation \<Rightarrow> (string \<times> DocumentOperation list) list
     \<Rightarrow> (string \<times> DocumentOperation list) list" where
  "add_to_group op [] = [(userId op, [op])]"
| "add_to_group op ((u, ops) # groups) =
     (if u = userId op then (u, ops @ [op]) # groups else (u, ops) # add_to_group op groups)"

definition operationsByUser ::
  "DocumentOperation list \<Rightarrow> (string \<times> DocumentOperation list) list" where
  "operationsByUser queue = foldl (\<lambda>groups op. add_to_group op groups) [] queue"

fun merge_groups ::
  "uuid_source \<Rightarrow> nat \<Rightarrow> (string \<times> DocumentOperation list) list
     \<Rightarrow> DocumentOperation list \<times> nat" where
  "merge_groups g n [] = ([], n)"
| "merge_groups g n ((u, userOps) # groups) =
     (case mergeOperations g n userOps of
        (merged, n') \<Rightarrow>
          (case merge_groups g n' groups of (others, n'') \<Rightarrow> (merged @ others, n'')))"

text \<open>The loop that transforms each operation against those already applied in the batch
  and applies it.\<close>

fun apply_loop ::
  "uuid_source \<Rightarrow> nat \<Rightarrow> string \<Rightarrow> DocumentOperation list \<Rightarrow> DocumentOperation list
     \<Rightarrow> string \<times> DocumentOperation list \<times> nat" where
  "apply_loop g n currentContent appliedOperations [] = (currentContent, appliedOperations, n)"
| "apply_loop g n currentContent appliedOperations (operation # rest) =
     (case transformAgainstOperations g n operation appliedOperations of
        (Some transformedOp, n') \<Rightarrow>
          apply_loop g n' (applyOperation currentContent (Some transformedOp))
            (appliedOperations @ [transformedOp\<lparr>applied := True\<rparr>]) rest
      | (None, n') \<Rightarrow> apply_loop g n' currentContent appliedOperations rest)"

text \<open>The part of \<^verbatim>\<open>processOperationQueue\<close> that computes the new content and the list
  of applied operations from the queue.\<close>

definition flush_batch ::
  "uuid_source \<Rightarrow> nat \<Rightarrow> string \<Rightarrow> DocumentOperation list
     \<Rightarrow> string \<times> DocumentOperation list \<times> nat" where
  "flush_batch g n text queue =
     (case merge_groups g n (operationsByUser queue) of
        (processedOperations, n') \<Rightarrow>
          apply_loop g n' text []
            (sort_cmp (\<lambda>a b. timestamp a - timestamp b) processedOperations))"

text \<open>\<^verbatim>\<open>split(/\s+/).filter(word => word.length > 0).length\<close>: the number of maximal runs
  of characters that are not white space. Of the characters \<^verbatim>\<open>\s\<close> matches, the tab,
  line feed, vertical tab, form feed, carriage return, space and no-break space (U+00A0)
  are code units of the type \<open>char\<close>; the others lie above U+00FF.\<close>

definition is_space :: "char \<Rightarrow> bool" where
  "is_space c =
     (c \<in> {CHR '' '', CHR 0x09, CHR 0x0A, CHR 0x0B, CHR 0x0C, CHR 0x0D, CHR 0xA0})"

fun count_words :: "bool \<Rightarrow> string \<Rightarrow> nat" where
  "count_words in_word [] = 0"
| "count_words in_word (c # cs) =
     (if is_space c then count_words False cs
      else (if in_word then 0 else 1) + count_words True cs)"

text \<open>
  \<^verbatim>\<open>processOperationQueue\<close>; \<open>io\<close> tells whether the \<^verbatim>\<open>io\<close> argument is an object
  (it is null when the call comes from \<^verbatim>\<open>removeUserFromDocument\<close>). Every exception
  is caught and logged by the function itself: a failed save skips the broadcast and the
  clearing of the queue, and so does the TypeError of \<^verbatim>\<open>io.to\<close> on null.
\<close>

definition processOperationQueue :: "uuid_source \<Rightarrow> manager \<Rightarrow> string \<Rightarrow> bool \<Rightarrow> manager" where
  "processOperationQueue g st documentId' io =
     (case activeDocuments st documentId' of
        None \<Rightarrow> st
      | Some document \<Rightarrow>
          (let queue = (case operationQueues st documentId' of None \<Rightarrow> [] | Some q \<Rightarrow> q) in
           if queue = [] then st
           else
             (case flush_batch g (uuid_count st) (content_doc document) queue of
                (currentContent, appliedOperations, n') \<Rightarrow>
                  (let document' = document
                         \<lparr>content_doc := currentContent,
                          operations := operations document @ appliedOperations,
                          version_doc := version_doc document + 1,
                          metadata := (metadata document)
                            \<lparr>wordCount := count_words False currentContent,
                             characterCount := length currentContent\<rparr>\<rparr>;
                       st1 = st\<lparr>uuid_count := n',
                                activeDocuments := (activeDocuments st)(documentId' \<mapsto> document')\<rparr>
                   in case saveDocument st1 document' of
                        (Inl e, st2) \<Rightarrow> st2
                      | (Inr _, st2) \<Rightarrow>
                          if \<not> io then st2
                          else st2
                            \<lparr>emitted := emitted st2 @
                               [DocumentSync documentId' (content_doc document')
                                  (version_doc document') appliedOperations (metadata document')],
                             operationQueues := (operationQueues st2)(documentId' \<mapsto> []),
                             debouncedSaves := (debouncedSaves st2)(documentId' := None)\<rparr>))))"

subsection \<open>Leaving\<close>

text \<open>
  \<^verbatim>\<open>removeUserFromDocument\<close>. The session is looked up after it has been deleted from
  \<^verbatim>\<open>userSessions\<close>. The document saved at the end is the object the manager holds,
  with whatever a forced flush did to it.
\<close>

definition removeUserFromDocument ::
  "uuid_source \<Rightarrow> manager \<Rightarrow> string \<Rightarrow> string \<Rightarrow> (error + unit) \<times> manager" where
  "removeUserFromDocument g st documentId' socketId' =
     (case activeDocuments st documentId' of
        None \<Rightarrow> (Inr (), st)
      | Some document \<Rightarrow>
          (let st1 = st
                 \<lparr>activeDocuments := (activeDocuments st)
                    (documentId' \<mapsto>
                       document\<lparr>activeUsers := AList.delete socketId' (activeUsers document)\<rparr>),
                  userSessions := (userSessions st)(socketId' := None)\<rparr>;
               queue = (case operationQueues st1 documentId' of None \<Rightarrow> [] | Some q \<Rightarrow> q);
               st2 =
                 (case userSessions st1 socketId' of
                    None \<Rightarrow> st1
                  | Some userSession \<Rightarrow>
                      if list_ex (\<lambda>op. userId op = id_user userSession) queue
                      then (case debouncedSaves st1 documentId' of
                              None \<Rightarrow> st1
                            | Some _ \<Rightarrow>
                                processOperationQueue g
                                  (st1\<lparr>debouncedSaves := (debouncedSaves st1)(documentId' := None)\<rparr>)
                                  documentId' False)
                      else st1)
           in case activeDocuments st2 documentId' of
                None \<Rightarrow> (Inr (), st2)
              | Some document' \<Rightarrow> saveDocument st2 document'))"

section \<open>The socket handlers (poc/server/index.js)\<close>

text \<open>The \<^verbatim>\<open>operation\<close> object of an inbound message, as the client sends it.\<close>

record wire_operation =
  wire_type :: string
  wire_position :: int
  wire_content :: "string option"
  wire_length :: "int option"

text \<open>
  \<^verbatim>\<open>socket.on('operation')\<close>: \<open>now\<close> is \<^verbatim>\<open>Date.now()\<close>. A message without an
  \<^verbatim>\<open>operation\<close> object makes \<^verbatim>\<open>operation.type\<close> throw a TypeError, which the handler
  answers with an \<^verbatim>\<open>error\<close> message to the sender.
\<close>

definition on_operation ::
  "uuid_source \<Rightarrow> manager \<Rightarrow> string \<Rightarrow> string \<Rightarrow> wire_operation option \<Rightarrow> int \<Rightarrow> manager" where
  "on_operation g st socket documentId' operation now =
     (case userSessions st socket of
        None \<Rightarrow> st
      | Some userSession \<Rightarrow>
          (case operation of
             None \<Rightarrow> st\<lparr>emitted := emitted st @
                         [ErrorMessage socket ''Failed to process operation'']\<rparr>
           | Some w \<Rightarrow>
               (let op = new_DocumentOperation (g (uuid_count st)) (wire_type w) (wire_position w)
                           (wire_content w) (wire_length w) (id_user userSession) now (Some socket);
                    st1 = st\<lparr>uuid_count := Suc (uuid_count st)\<rparr>
                in snd (queueOperation g st1 documentId' op socket))))"

text \<open>\<^verbatim>\<open>socket.on('disconnect')\<close>: an exception of \<^verbatim>\<open>removeUserFromDocument\<close> is
  caught and logged, and nothing is sent.\<close>

definition on_disconnect :: "uuid_source \<Rightarrow> manager \<Rightarrow> string \<Rightarrow> manager" where
  "on_disconnect g st socket =
     (case userSessions st socket of
        None \<Rightarrow> st
      | Some userSession \<Rightarrow>
          (case removeUserFromDocument g st (documentId userSession) socket of
             (Inl e, st1) \<Rightarrow> st1
           | (Inr _, st1) \<Rightarrow>
               (let st2 = st1\<lparr>emitted := emitted st1 @
                               [UserLeft (documentId userSession) socket userSession]\<rparr>
                in case activeDocuments st2 (documentId userSession) of
                     None \<Rightarrow> st2
                   | Some document \<Rightarrow>
                       st2\<lparr>emitted := emitted st2 @
                             [UsersUpdated (documentId userSession) (activeUsers document)]\<rparr>)))"

section \<open>Notions used to state the properties\<close>

text \<open>An example source of identifiers: \<open>uuid-\<close>, \<open>uuid-x\<close>, \<open>uuid-xx\<close>, ...\<close>

definition example_uuids :: uuid_source where
  "example_uuids k = ''uuid-'' @ replicate k CHR ''x''"

text \<open>
  What an operation does to a text when \<^verbatim>\<open>applyOperation\<close> runs it: whether it is
  one of the three editing kinds, the number of code units it removes at its position and
  the string it puts there.
\<close>

definition edits :: "DocumentOperation \<Rightarrow> bool" where
  "edits op = (type_op op = ''insert'' \<or> type_op op = ''delete'' \<or> type_op op = ''replace'')"

definition known_kind :: "DocumentOperation \<Rightarrow> bool" where
  "known_kind op = (edits op \<or> type_op op = ''retain'')"

definition span :: "DocumentOperation \<Rightarrow> int" where
  "span op = (if type_op op = ''delete'' \<or> type_op op = ''replace'' then length_or_0 op else 0)"

definition inserted :: "DocumentOperation \<Rightarrow> string" where
  "inserted op =
     (if type_op op = ''insert'' \<or> type_op op = ''replace'' then content_or_empty op else [])"

text \<open>The operation lies within the text (a retain touches nothing).\<close>

definition in_bounds :: "string \<Rightarrow> DocumentOperation \<Rightarrow> bool" where
  "in_bounds s op =
     (type_op op = ''retain''
      \<or> (0 \<le> position op \<and> 0 \<le> span op \<and> position op + span op \<le> int (length s)))"

text \<open>The ranges of two operations do not overlap: one ends where the other starts, or
  before; an insert has an empty range.\<close>

definition separate :: "DocumentOperation \<Rightarrow> DocumentOperation \<Rightarrow> bool" where
  "separate a b =
     (type_op a = ''retain'' \<or> type_op b = ''retain''
      \<or> position a + span a \<le> position b \<or> position b + span b \<le> position a)"

text \<open>Replacing \<open>l\<close> elements at \<open>p\<close> by \<open>c\<close>.\<close>

definition splice :: "nat \<Rightarrow> nat \<Rightarrow> 'a list \<Rightarrow> 'a list \<Rightarrow> 'a list" where
  "splice p l c s = take p s @ c @ drop (p + l) s"

text \<open>An output of \<^verbatim>\<open>transform\<close> that was built by \<^verbatim>\<open>new DocumentOperation\<close> from
  the input \<open>orig\<close> with the identifier \<open>u\<close>.\<close>

definition rebuilt_copy :: "uuid \<Rightarrow> DocumentOperation \<Rightarrow> DocumentOperation \<Rightarrow> bool" where
  "rebuilt_copy u orig new =
     (type_op new = type_op orig \<and> content new = content orig \<and> userId new = userId orig
      \<and> timestamp new = timestamp orig \<and> clientId new = clientId orig
      \<and> id_op new = u \<and> version_op new = 1 \<and> \<not> applied new)"

text \<open>An output is absent, the input object itself, or a copy built with one of the
  identifiers drawn during the call (calls number \<open>n\<close> to \<open>n' - 1\<close>).\<close>

definition transform_output ::
  "uuid_source \<Rightarrow> nat \<Rightarrow> nat \<Rightarrow> DocumentOperation \<Rightarrow> DocumentOperation option \<Rightarrow> bool" where
  "transform_output g n n' orig out =
     (case out of
        None \<Rightarrow> True
      | Some new \<Rightarrow> new = orig \<or> list_ex (\<lambda>k. rebuilt_copy (g k) orig new) [n..<n'])"

definition outputs_ok ::
  "uuid_source \<Rightarrow> nat \<Rightarrow> DocumentOperation \<Rightarrow> DocumentOperation \<Rightarrow> transformed \<Rightarrow> bool" where
  "outputs_ok g n op1 op2 r =
     (case r of (r1, r2, n') \<Rightarrow>
        transform_output g n n' op1 r1 \<and> transform_output g n n' op2 r2)"

subsection \<open>Example data\<close>

text \<open>One user on one socket, editing document \<open>D\<close>.\<close>

definition alice :: user_session where
  "alice = \<lparr>id_user = ''user-1'', name = ''Alice'', color = ''#FF6B6B'', avatar = ''A'',
             documentId = ''D'', socketId = ''socket-1''\<rparr>"

definition example_document :: "string \<Rightarrow> Document" where
  "example_document s =
     \<lparr>id_doc = ''D'', title = ''Notes'', content_doc = s, operations = [], version_doc = 1,
      activeUsers = [(''socket-1'', user.truncate alice)],
      metadata = \<lparr>createdBy = None, lastModifiedBy = None, wordCount = count_words False s,
                  characterCount = length s, status = ''draft''\<rparr>\<rparr>"

text \<open>A manager holding that document with the given content and queue; \<open>failing\<close> tells
  whether writing to the documents directory fails.\<close>

definition example_manager :: "string \<Rightarrow> DocumentOperation list \<Rightarrow> bool \<Rightarrow> manager" where
  "example_manager s queue failing =
     \<lparr>activeDocuments = [''D'' \<mapsto> example_document s],
      operationQueues = [''D'' \<mapsto> queue],
      debouncedSaves = (if queue = [] then Map.empty else [''D'' \<mapsto> ''socket-1'']),
      userSessions = [''socket-1'' \<mapsto> alice],
      files = [''D'' \<mapsto> Snapshot (example_document s)],
      write_fails = failing, uuid_count = 0, emitted = []\<rparr>"

text \<open>A manager with no document in memory and an empty documents directory.\<close>

definition empty_manager :: manager where
  "empty_manager =
     \<lparr>activeDocuments = Map.empty, operationQueues = Map.empty, debouncedSaves = Map.empty,
      userSessions = Map.empty, files = Map.empty, write_fails = False, uuid_count = 0,
      emitted = []\<rparr>"

text \<open>Two inserts at the end of \<open>HELLO\<close>, an insert inside a deleted range, the two
  overlapping deletes of \<open>0123456789\<close>, and two inbound messages.\<close>

definition insert_X :: DocumentOperation where
  "insert_X = new_DocumentOperation ''op-1'' ''insert'' 5 (Some ''X'') None ''user-1'' 100
                (Some ''socket-1'')"

definition insert_Y :: DocumentOperation where
  "insert_Y = new_DocumentOperation ''op-2'' ''insert'' 5 (Some ''Y'') None ''user-2'' 101
                (Some ''socket-2'')"

definition tp1_insert :: DocumentOperation where
  "tp1_insert = new_DocumentOperation ''op-a'' ''insert'' 1 (Some ''X'') None ''user-1'' 10 None"

definition tp1_delete :: DocumentOperation where
  "tp1_delete = new_DocumentOperation ''op-b'' ''delete'' 0 None (Some 2) ''user-2'' 11 None"

definition scenario_C_U1 :: DocumentOperation where
  "scenario_C_U1 = new_DocumentOperation ''op-1'' ''delete'' 2 None (Some 4) ''user-1'' 300
                    (Some ''socket-1'')"

definition scenario_C_U2 :: DocumentOperation where
  "scenario_C_U2 = new_DocumentOperation ''op-2'' ''delete'' 4 None (Some 4) ''user-2'' 301
                    (Some ''socket-2'')"

definition bogus_operation :: wire_operation where
  "bogus_operation =
     \<lparr>wire_type = ''bogus'', wire_position = - 5, wire_content = None, wire_length = None\<rparr>"

definition insert_bang :: wire_operation where
  "insert_bang =
     \<lparr>wire_type = ''insert'', wire_position = 3, wire_content = Some ''!'', wire_length = None\<rparr>"

section \<open>Convergence of two concurrent operations\<close>

lemma slice2_0: "0 \<le> i \<Longrightarrow> i \<le> int (length s) \<Longrightarrow> slice2 s 0 i = take (nat i) s"
  by (simp add: slice2_def slice_index_def Let_def)

lemma slice1_nat: "0 \<le> i \<Longrightarrow> i \<le> int (length s) \<Longrightarrow> slice1 s i = drop (nat i) s"
  by (simp add: slice1_def slice_index_def)

lemma apply_splice:
  assumes "edits op" "\<not> applied op" "in_bounds s op"
  shows "applyOperation s (Some op) = splice (nat (position op)) (nat (span op)) (inserted op) s"
  using assms
  unfolding edits_def in_bounds_def span_def inserted_def applyOperation_def splice_def
  by (auto simp: slice2_0 slice1_nat nat_add_distrib)

lemma splice_parts:
  "length u = p \<Longrightarrow> length v = l \<Longrightarrow> splice p l c (u @ v @ r) = u @ c @ r"
  by (simp add: splice_def)

lemma splice_length:
  "p + l \<le> length s \<Longrightarrow> length (splice p l c s) = length s - l + length c"
  by (simp add: splice_def)

lemma split5:
  assumes "p1 + l1 \<le> p2" "p2 + l2 \<le> length s"
  obtains u v w x y where "s = u @ v @ w @ x @ y" "length u = p1" "length v = l1"
    "length w = p2 - (p1 + l1)" "length x = l2"
proof
  let ?r1 = "drop p1 s"
  let ?r2 = "drop l1 ?r1"
  let ?r3 = "drop (p2 - (p1 + l1)) ?r2"
  show "s = take p1 s @ take l1 ?r1 @ take (p2 - (p1 + l1)) ?r2 @ take l2 ?r3 @ drop l2 ?r3"
    by (simp only: append_take_drop_id)
  show "length (take p1 s) = p1" using assms by simp
  show "length (take l1 ?r1) = l1" using assms by simp
  show "length (take (p2 - (p1 + l1)) ?r2) = p2 - (p1 + l1)" using assms by simp
  show "length (take l2 ?r3) = l2" using assms by simp
qed

text \<open>Two splices at ranges that do not overlap commute, once the later position is
  shifted by what the earlier splice removes and inserts.\<close>

lemma splice_commute:
  assumes "p1 + l1 \<le> p2" "p2 + l2 \<le> length s"
  shows "splice (p2 - l1 + length c1) l2 c2 (splice p1 l1 c1 s)
       = splice p1 l1 c1 (splice p2 l2 c2 s)"
proof -
  from assms obtain u v w x y where s: "s = u @ v @ w @ x @ y" and
    lens: "length u = p1" "length v = l1" "length w = p2 - (p1 + l1)" "length x = l2"
    by (rule split5)
  have a: "splice p1 l1 c1 s = (u @ c1 @ w) @ x @ y"
    using lens by (simp add: s splice_parts)
  have len1: "length (u @ c1 @ w) = p2 - l1 + length c1"
    using lens assms by simp
  have b: "splice p2 l2 c2 s = u @ v @ (w @ c2 @ y)"
  proof -
    have "s = (u @ v @ w) @ x @ y" by (simp add: s)
    moreover have "length (u @ v @ w) = p2" using lens assms by simp
    ultimately have "splice p2 l2 c2 s = (u @ v @ w) @ c2 @ y"
      using lens(4) splice_parts by metis
    then show ?thesis by simp
  qed
  have "splice (p2 - l1 + length c1) l2 c2 (splice p1 l1 c1 s) = (u @ c1 @ w) @ c2 @ y"
    unfolding a using len1 lens(4) by (rule splice_parts)
  moreover have "splice p1 l1 c1 (splice p2 l2 c2 s) = u @ c1 @ (w @ c2 @ y)"
    unfolding b using lens(1,2) by (rule splice_parts)
  ultimately show ?thesis by simp
qed

lemma rebuilt_fields [simp]:
  "type_op (rebuilt u op pos len) = type_op op"
  "position (rebuilt u op pos len) = pos"
  "content (rebuilt u op pos len) = content op"
  "length_op (rebuilt u op pos len) = len"
  "applied (rebuilt u op pos len) = False"
  by (simp_all add: rebuilt_def new_DocumentOperation_def)

lemma rebuilt_effect [simp]:
  "edits (rebuilt u op pos len) = edits op"
  "span (rebuilt u op pos (length_op op)) = span op"
  "inserted (rebuilt u op pos len) = inserted op"
  by (simp_all add: edits_def span_def inserted_def length_or_0_def content_or_empty_def)

lemma edits_not_retain: "edits op \<Longrightarrow> type_op op \<noteq> ''retain''"
  by (auto simp: edits_def)

lemma tp1_before:
  assumes ea: "edits a" and eb: "edits b" and na: "\<not> applied a" and nb: "\<not> applied b"
    and ba: "in_bounds s a" and bb: "in_bounds s b"
    and sep: "position a + span a \<le> position b"
    and b': "b' = rebuilt u b (position b - span a + int (length (inserted a))) (length_op b)"
  shows "applyOperation (applyOperation s (Some a)) (Some b')
       = applyOperation (applyOperation s (Some b)) (Some a)"
proof -
  let ?pa = "nat (position a)" and ?la = "nat (span a)"
  let ?pb = "nat (position b)" and ?lb = "nat (span b)"
  note ra = edits_not_retain [OF ea] and rb = edits_not_retain [OF eb]
  have n1: "?pa + ?la \<le> ?pb" and n2: "?pb + ?lb \<le> length s" and n0: "?pa + ?la \<le> length s"
    using ba bb sep ra rb by (simp_all add: in_bounds_def) linarith+
  have A: "applyOperation s (Some a) = splice ?pa ?la (inserted a) s"
    using ea na ba by (rule apply_splice)
  have B: "applyOperation s (Some b) = splice ?pb ?lb (inserted b) s"
    using eb nb bb by (rule apply_splice)
  have pos': "nat (position b') = ?pb - ?la + length (inserted a)"
    using ba bb sep ra rb by (simp add: b' in_bounds_def) linarith
  have "in_bounds (splice ?pa ?la (inserted a) s) b'"
    using ba bb sep n0 ra rb by (simp add: b' in_bounds_def splice_length)
  then have A': "applyOperation (splice ?pa ?la (inserted a) s) (Some b')
      = splice (?pb - ?la + length (inserted a)) ?lb (inserted b) (splice ?pa ?la (inserted a) s)"
    using apply_splice [of b' "splice ?pa ?la (inserted a) s"] eb pos' by (simp add: b')
  have "in_bounds (splice ?pb ?lb (inserted b) s) a"
    using ba bb sep n2 ra rb by (simp add: in_bounds_def splice_length)
  then have B': "applyOperation (splice ?pb ?lb (inserted b) s) (Some a)
      = splice ?pa ?la (inserted a) (splice ?pb ?lb (inserted b) s)"
    using ea na by (simp add: apply_splice)
  show ?thesis
    unfolding A B A' B' using n1 n2 by (rule splice_commute)
qed

lemmas transform_defs = transform_def transformInsertInsert_def transformInsertDelete_def
  transformInsertReplace_def transformDeleteInsert_def transformDeleteDelete_def
  transformDeleteReplace_def transformReplaceInsert_def transformReplaceDelete_def
  transformReplaceReplace_def

lemma transform_disjoint:
  assumes "id_op a \<noteq> id_op b" "edits a" "edits b"
    and "position a + span a \<le> position b \<or> position b + span b \<le> position a"
  shows "(position a + span a \<le> position b \<and>
          transform g n a b True =
            (Some a,
             Some (rebuilt (g n) b (position b - span a + int (length (inserted a))) (length_op b)),
             Suc n))
       \<or> (position b + span b \<le> position a \<and>
          transform g n a b True =
            (Some (rebuilt (g n) a (position a - span b + int (length (inserted b))) (length_op a)),
             Some b, Suc n))"
  using assms
  unfolding edits_def
  apply (elim disjE)
  apply (simp_all add: transform_defs span_def inserted_def content_length_or_0_def
      content_or_empty_def Let_def split: option.splits)
  done

lemma transform_retain:
  assumes "id_op a \<noteq> id_op b" "known_kind a" "known_kind b"
    and "type_op a = ''retain'' \<or> type_op b = ''retain''"
  shows "transform g n a b p = (Some a, Some b, n)"
  using assms
  unfolding known_kind_def edits_def
  apply (elim disjE)
  apply (simp_all add: transform_def)
  done

lemma apply_retain: "type_op op = ''retain'' \<Longrightarrow> applyOperation s (Some op) = s"
  by (simp add: applyOperation_def)

text \<open>
  Claim C1, as amended. For every text and every two operations of the kinds insert,
  delete, replace and retain that have different ids, are not yet applied, lie within the
  text and have ranges that do not overlap (or one of which is a retain): when
  \<open>transform a b True\<close> gives \<open>(a', b')\<close>, applying \<open>a\<close> and then \<open>b'\<close> yields the same text
  as applying \<open>b\<close> and then \<open>a'\<close>.
\<close>

theorem tp1_separate:
  assumes kinds: "known_kind a" "known_kind b"
    and ids: "id_op a \<noteq> id_op b"
    and fresh: "\<not> applied a" "\<not> applied b"
    and bounds: "in_bounds s a" "in_bounds s b"
    and sep: "separate a b"
    and t: "transform g n a b True = (a', b', n')"
  shows "applyOperation (applyOperation s (Some a)) b'
       = applyOperation (applyOperation s (Some b)) a'"
proof (cases "type_op a = ''retain'' \<or> type_op b = ''retain''")
  case True
  with ids kinds have "transform g n a b True = (Some a, Some b, n)"
    by (simp add: transform_retain)
  with t have "a' = Some a" "b' = Some b" by simp_all
  with True show ?thesis by (auto simp: apply_retain)
next
  case False
  with kinds have e: "edits a" "edits b" by (simp_all add: known_kind_def)
  from False sep have "position a + span a \<le> position b \<or> position b + span b \<le> position a"
    by (simp add: separate_def)
  with transform_disjoint [of a b g n] ids e
  consider
    (before) "position a + span a \<le> position b"
      "transform g n a b True =
         (Some a,
          Some (rebuilt (g n) b (position b - span a + int (length (inserted a))) (length_op b)),
          Suc n)"
  | (after) "position b + span b \<le> position a"
      "transform g n a b True =
         (Some (rebuilt (g n) a (position a - span b + int (length (inserted b))) (length_op a)),
          Some b, Suc n)"
    by blast
  then show ?thesis
  proof cases
    case before
    with t have "a' = Some a"
      "b' = Some (rebuilt (g n) b (position b - span a + int (length (inserted a))) (length_op b))"
      by simp_all
    then show ?thesis
      using tp1_before [OF e fresh bounds before(1) refl] by simp
  next
    case after
    with t have "b' = Some b"
      "a' = Some (rebuilt (g n) a (position a - span b + int (length (inserted b))) (length_op a))"
      by simp_all
    then show ?thesis
      using tp1_before [OF e(2,1) fresh(2,1) bounds(2,1) after(1) refl] by simp
  qed
qed

text \<open>
  An instance: on \<open>HELLO\<close>, inserting \<open>X\<close> at 5 and \<open>Y\<close> at 5 converge to \<open>HELLOXY\<close>.
\<close>

theorem tp1_separate_witness:
  "applyOperation (applyOperation ''HELLO'' (Some insert_X))
      (fst (snd (transform example_uuids 0 insert_X insert_Y True)))
   = applyOperation (applyOperation ''HELLO'' (Some insert_Y))
      (fst (transform example_uuids 0 insert_X insert_Y True))
   \<and> applyOperation (applyOperation ''HELLO'' (Some insert_Y))
      (fst (transform example_uuids 0 insert_X insert_Y True)) = ''HELLOXY''"
proof -
  have kinds: "known_kind insert_X" "known_kind insert_Y"
    by (simp_all add: known_kind_def edits_def insert_X_def insert_Y_def new_DocumentOperation_def)
  have ids: "id_op insert_X \<noteq> id_op insert_Y"
    by (simp add: insert_X_def insert_Y_def new_DocumentOperation_def)
  have fresh: "\<not> applied insert_X" "\<not> applied insert_Y"
    by (simp_all add: insert_X_def insert_Y_def new_DocumentOperation_def)
  have bounds: "in_bounds ''HELLO'' insert_X" "in_bounds ''HELLO'' insert_Y"
    by (simp_all add: in_bounds_def span_def insert_X_def insert_Y_def new_DocumentOperation_def)
  have sep: "separate insert_X insert_Y"
    by (simp add: separate_def span_def insert_X_def insert_Y_def new_DocumentOperation_def)
  have t: "transform example_uuids 0 insert_X insert_Y True
      = (fst (transform example_uuids 0 insert_X insert_Y True),
         fst (snd (transform example_uuids 0 insert_X insert_Y True)),
         snd (snd (transform example_uuids 0 insert_X insert_Y True)))"
    by simp
  have "applyOperation (applyOperation ''HELLO'' (Some insert_X))
      (fst (snd (transform example_uuids 0 insert_X insert_Y True)))
   = applyOperation (applyOperation ''HELLO'' (Some insert_Y))
      (fst (transform example_uuids 0 insert_X insert_Y True))"
    by (rule tp1_separate [OF kinds ids fresh bounds sep t])
  moreover have "applyOperation (applyOperation ''HELLO'' (Some insert_Y))
      (fst (transform example_uuids 0 insert_X insert_Y True)) = ''HELLOXY''"
    by code_simp
  ultimately show ?thesis by simp
qed

text \<open>
  Claim C1 as stated fails when an insert falls strictly inside a deleted range. On
  \<open>abcd\<close>, with \<open>a\<close> inserting \<open>X\<close> at 1 and \<open>b\<close> deleting 2 at 0, \<open>transform\<close> moves
  \<open>a\<close> to position 0 and leaves \<open>b\<close> as it is: \<open>a\<close> then \<open>b'\<close> gives \<open>bcd\<close>, \<open>b\<close> then
  \<open>a'\<close> gives \<open>Xcd\<close>.
\<close>

theorem tp1_counterexample:
  "applyOperation (applyOperation ''abcd'' (Some tp1_insert))
      (fst (snd (transform example_uuids 0 tp1_insert tp1_delete True))) = ''bcd''
   \<and> applyOperation (applyOperation ''abcd'' (Some tp1_delete))
      (fst (transform example_uuids 0 tp1_insert tp1_delete True)) = ''Xcd''
   \<and> applyOperation (applyOperation ''abcd'' (Some tp1_insert))
      (fst (snd (transform example_uuids 0 tp1_insert tp1_delete True)))
     \<noteq> applyOperation (applyOperation ''abcd'' (Some tp1_delete))
      (fst (transform example_uuids 0 tp1_insert tp1_delete True))"
  by code_simp

text \<open>
  Each restriction of the amended statement is needed: convergence also fails for two
  operations with the same id, for an operation already applied, for positions beyond the
  text, for overlapping replaces and for overlapping deletes.
\<close>

theorem tp1_restrictions_needed:
  "applyOperation (applyOperation ''HELLO'' (Some insert_X))
      (fst (snd (transform example_uuids 0 insert_X (insert_Y\<lparr>id_op := ''op-1''\<rparr>) True)))
     \<noteq> applyOperation (applyOperation ''HELLO'' (Some (insert_Y\<lparr>id_op := ''op-1''\<rparr>)))
      (fst (transform example_uuids 0 insert_X (insert_Y\<lparr>id_op := ''op-1''\<rparr>) True))
   \<and> applyOperation (applyOperation ''0123456789'' (Some (tp1_insert\<lparr>applied := True\<rparr>)))
      (fst (snd (transform example_uuids 0 (tp1_insert\<lparr>applied := True\<rparr>) insert_Y True)))
     \<noteq> applyOperation (applyOperation ''0123456789'' (Some insert_Y))
      (fst (transform example_uuids 0 (tp1_insert\<lparr>applied := True\<rparr>) insert_Y True))
   \<and> applyOperation (applyOperation '''' (Some tp1_insert))
      (fst (snd (transform example_uuids 0 tp1_insert insert_Y True)))
     \<noteq> applyOperation (applyOperation '''' (Some insert_Y))
      (fst (transform example_uuids 0 tp1_insert insert_Y True))
   \<and> applyOperation
      (applyOperation ''0123456789'' (Some (scenario_C_U1\<lparr>type_op := ''replace''\<rparr>)))
      (fst (snd (transform example_uuids 0 (scenario_C_U1\<lparr>type_op := ''replace''\<rparr>)
                   (scenario_C_U2\<lparr>type_op := ''replace''\<rparr>) True)))
     \<noteq> applyOperation
      (applyOperation ''0123456789'' (Some (scenario_C_U2\<lparr>type_op := ''replace''\<rparr>)))
      (fst (transform example_uuids 0 (scenario_C_U1\<lparr>type_op := ''replace''\<rparr>)
              (scenario_C_U2\<lparr>type_op := ''replace''\<rparr>) True))
   \<and> applyOperation (applyOperation ''0123456789'' (Some scenario_C_U1))
      (fst (snd (transform example_uuids 0 scenario_C_U1 scenario_C_U2 True)))
     \<noteq> applyOperation (applyOperation ''0123456789'' (Some scenario_C_U2))
      (fst (transform example_uuids 0 scenario_C_U1 scenario_C_U2 True))"
  by code_simp

section \<open>Overlapping deletes in one batch\<close>

text \<open>
  Claim C2. Content \<open>0123456789\<close>, queue: U1 deletes 4 at 2 (timestamp 300), U2 deletes 4 at
  4 (timestamp 301). The flush applies U1 unchanged and U2 with length 2 at its old
  position 4, so the content becomes \<open>0167\<close>, not \<open>0189\<close>. Transformed against each other,
  neither delete is absent and each keeps length 2.
\<close>

theorem overlapping_deletes_flush:
  "flush_batch example_uuids 0 ''0123456789'' [scenario_C_U1, scenario_C_U2]
     = (''0167'',
        [scenario_C_U1\<lparr>applied := True\<rparr>,
         (rebuilt (example_uuids 2) scenario_C_U2 4 (Some 2))\<lparr>applied := True\<rparr>],
        4)
   \<and> map_option content_doc
       (activeDocuments
          (processOperationQueue example_uuids
             (example_manager ''0123456789'' [scenario_C_U1, scenario_C_U2] False) ''D'' True)
          ''D'')
     = Some ''0167''
   \<and> transformDeleteDelete example_uuids 0 scenario_C_U1 scenario_C_U2
     = (Some (rebuilt (example_uuids 0) scenario_C_U1 2 (Some 2)),
        Some (rebuilt (example_uuids 1) scenario_C_U2 4 (Some 2)), 2)"
  by code_simp

section \<open>Loading a document that has no usable snapshot\<close>

text \<open>
  Claim C3. With no file for \<open>D\<close>, \<^verbatim>\<open>loadDocument\<close> returns an empty document whose id
  is the fresh identifier, not \<open>D\<close>; it is stored and registered under that identifier,
  nothing is registered or stored under \<open>D\<close>, and a second load of \<open>D\<close> creates yet another
  document. An empty and an unparsable file for \<open>D\<close> lead to a document with the fresh
  identifier in the same way.
\<close>

theorem load_missing_document:
  "fst (loadDocument example_uuids empty_manager ''D'')
     = Inr (Some \<lparr>id_doc = ''uuid-'', title = ''Document D'', content_doc = [],
                   operations = [], version_doc = 1, activeUsers = [],
                   metadata = \<lparr>createdBy = None, lastModifiedBy = None, wordCount = 0,
                               characterCount = 0, status = ''draft''\<rparr>\<rparr>)
   \<and> activeDocuments (snd (loadDocument example_uuids empty_manager ''D'')) ''D'' = None
   \<and> files (snd (loadDocument example_uuids empty_manager ''D'')) ''D'' = None
   \<and> map_option id_doc
       (activeDocuments (snd (loadDocument example_uuids empty_manager ''D'')) ''uuid-'')
     = Some ''uuid-''
   \<and> map_sum id (map_option id_doc)
       (fst (loadDocument example_uuids
               (snd (loadDocument example_uuids empty_manager ''D'')) ''D''))
     = Inr (Some ''uuid-x'')
   \<and> map_sum id (map_option id_doc)
       (fst (loadDocument example_uuids (empty_manager\<lparr>files := [''D'' \<mapsto> EmptyFile]\<rparr>) ''D''))
     = Inr (Some ''uuid-'')
   \<and> map_sum id (map_option id_doc)
       (fst (loadDocument example_uuids (empty_manager\<lparr>files := [''D'' \<mapsto> InvalidJson]\<rparr>) ''D''))
     = Inr (Some ''uuid-'')"
  by code_simp

section \<open>Admission of inbound operations\<close>

text \<open>The messages \<^verbatim>\<open>applyOperationImmediate\<close> sends for an operation: the echo of the
  operation transformed against the last ten applied operations, with the tentative
  content, or nothing when the transformation absorbs the operation.\<close>

lemma queueOperation_queue:
  assumes "activeDocuments st d = Some doc"
  shows "operationQueues (snd (queueOperation g st d op socket)) d
           = Some ((case operationQueues st d of None \<Rightarrow> [] | Some q \<Rightarrow> q) @ [op])
       \<and> debouncedSaves (snd (queueOperation g st d op socket)) d = Some socket
       \<and> activeDocuments (snd (queueOperation g st d op socket)) = activeDocuments st
       \<and> files (snd (queueOperation g st d op socket)) = files st
       \<and> emitted (snd (queueOperation g st d op socket))
           = emitted st @
             (case fst (transformAgainstOperations g (uuid_count st) op
                          (drop (length (operations doc) - 10) (operations doc))) of
                None \<Rightarrow> []
              | Some t \<Rightarrow>
                  [OperationImmediate (id_doc doc) socket t
                     (applyOperation (content_doc doc) (Some t)) (userSessions st socket)])"
  using assms
  by (simp add: queueOperation_def applyOperationImmediate_def Let_def
      split: prod.splits option.splits)

lemma no_error_in_echo:
  "list_all (\<lambda>e. case e of ErrorMessage _ _ \<Rightarrow> False | _ \<Rightarrow> True)
     (case r of None \<Rightarrow> [] | Some t \<Rightarrow> [OperationImmediate room socket t (f t) us])"
  by (cases r) simp_all

text \<open>
  Claim C4, as amended. The handler validates nothing. A message from a socket without a
  session changes nothing; a message without an operation object is answered with the
  error \<open>Failed to process operation\<close> and changes nothing else; an operation for a
  document that is not in memory is dropped (only an identifier is used up); every other
  operation, whatever its kind, position, content and length, is appended to the
  document's queue and the timeout is re-armed; the documents in memory and the snapshots
  stay as they are; no error is sent; the only message sent is the immediate echo to the
  document's room, carrying the operation transformed against the last ten applied
  operations and the tentative content, and it is left out when that transformation
  absorbs the operation.
\<close>

theorem operation_admission:
  "(userSessions st socket = None \<longrightarrow> on_operation g st socket d w now = st)
   \<and> (userSessions st socket \<noteq> None \<longrightarrow>
        on_operation g st socket d None now
          = st\<lparr>emitted := emitted st @ [ErrorMessage socket ''Failed to process operation'']\<rparr>)
   \<and> (userSessions st socket \<noteq> None \<and> activeDocuments st d = None \<longrightarrow>
        on_operation g st socket d (Some x) now = st\<lparr>uuid_count := Suc (uuid_count st)\<rparr>)
   \<and> (userSessions st socket = Some us \<and> activeDocuments st d = Some doc \<longrightarrow>
        operationQueues (on_operation g st socket d (Some x) now) d
          = Some ((case operationQueues st d of None \<Rightarrow> [] | Some q \<Rightarrow> q)
                  @ [new_DocumentOperation (g (uuid_count st)) (wire_type x) (wire_position x)
                       (wire_content x) (wire_length x) (id_user us) now (Some socket)])
        \<and> debouncedSaves (on_operation g st socket d (Some x) now) d = Some socket
        \<and> list_all (\<lambda>e. case e of ErrorMessage _ _ \<Rightarrow> False | _ \<Rightarrow> True)
             (drop (length (emitted st)) (emitted (on_operation g st socket d (Some x) now)))
        \<and> emitted (on_operation g st socket d (Some x) now)
            = emitted st @
              (case fst (transformAgainstOperations g (Suc (uuid_count st))
                           (new_DocumentOperation (g (uuid_count st)) (wire_type x)
                              (wire_position x) (wire_content x) (wire_length x) (id_user us)
                              now (Some socket))
                           (drop (length (operations doc) - 10) (operations doc))) of
                 None \<Rightarrow> []
               | Some t \<Rightarrow>
                   [OperationImmediate (id_doc doc) socket t
                      (applyOperation (content_doc doc) (Some t)) (Some us)])
        \<and> activeDocuments (on_operation g st socket d (Some x) now) = activeDocuments st
        \<and> files (on_operation g st socket d (Some x) now) = files st)"
proof (intro conjI impI)
  assume "userSessions st socket = None"
  then show "on_operation g st socket d w now = st"
    by (simp add: on_operation_def)
next
  assume "userSessions st socket \<noteq> None"
  then show "on_operation g st socket d None now
          = st\<lparr>emitted := emitted st @ [ErrorMessage socket ''Failed to process operation'']\<rparr>"
    by (auto simp: on_operation_def)
next
  assume "userSessions st socket \<noteq> None \<and> activeDocuments st d = None"
  then show "on_operation g st socket d (Some x) now = st\<lparr>uuid_count := Suc (uuid_count st)\<rparr>"
    by (auto simp: on_operation_def queueOperation_def Let_def)
next
  assume a: "userSessions st socket = Some us \<and> activeDocuments st d = Some doc"
  let ?st1 = "st\<lparr>uuid_count := Suc (uuid_count st)\<rparr>"
  let ?op = "new_DocumentOperation (g (uuid_count st)) (wire_type x) (wire_position x)
                       (wire_content x) (wire_length x) (id_user us) now (Some socket)"
  let ?echo = "case fst (transformAgainstOperations g (Suc (uuid_count st)) ?op
                           (drop (length (operations doc) - 10) (operations doc))) of
                 None \<Rightarrow> []
               | Some t \<Rightarrow>
                   [OperationImmediate (id_doc doc) socket t
                      (applyOperation (content_doc doc) (Some t)) (Some us)]"
  have r: "on_operation g st socket d (Some x) now = snd (queueOperation g ?st1 d ?op socket)"
    using a by (simp add: on_operation_def Let_def)
  have d: "activeDocuments ?st1 d = Some doc" using a by simp
  note q = queueOperation_queue [OF d, of g ?op socket]
  from q show "operationQueues (on_operation g st socket d (Some x) now) d
          = Some ((case operationQueues st d of None \<Rightarrow> [] | Some q \<Rightarrow> q) @ [?op])"
    by (simp add: r)
  from q show "debouncedSaves (on_operation g st socket d (Some x) now) d = Some socket"
    by (simp add: r)
  from q a show e: "emitted (on_operation g st socket d (Some x) now) = emitted st @ ?echo"
    by (simp add: r split: option.splits)
  show "list_all (\<lambda>e. case e of ErrorMessage _ _ \<Rightarrow> False | _ \<Rightarrow> True)
             (drop (length (emitted st)) (emitted (on_operation g st socket d (Some x) now)))"
    unfolding e by (simp add: no_error_in_echo)
  from q show "activeDocuments (on_operation g st socket d (Some x) now) = activeDocuments st"
    by (simp add: r)
  from q show "files (on_operation g st socket d (Some x) now) = files st"
    by (simp add: r)
qed

text \<open>
  An instance: Alice's insert of \<open>!\<close> at 3 into \<open>abc\<close> is queued and echoed to the room
  with the tentative content \<open>abc!\<close>; the same message from a socket that has not joined
  leaves the manager as it was.
\<close>

theorem operation_admission_witness:
  "operationQueues
     (on_operation example_uuids (example_manager ''abc'' [] False) ''socket-1'' ''D''
        (Some insert_bang) 1000) ''D''
     = Some [new_DocumentOperation ''uuid-'' ''insert'' 3 (Some ''!'') None ''user-1'' 1000
               (Some ''socket-1'')]
   \<and> emitted
     (on_operation example_uuids (example_manager ''abc'' [] False) ''socket-1'' ''D''
        (Some insert_bang) 1000)
     = [OperationImmediate ''D'' ''socket-1''
          (new_DocumentOperation ''uuid-'' ''insert'' 3 (Some ''!'') None ''user-1'' 1000
             (Some ''socket-1''))
          ''abc!'' (Some alice)]
   \<and> on_operation example_uuids (example_manager ''abc'' [] False) ''socket-2'' ''D''
        (Some insert_bang) 1000 = example_manager ''abc'' [] False"
proof -
  let ?st = "example_manager ''abc'' [] False"
  let ?op = "new_DocumentOperation (example_uuids (uuid_count ?st)) (wire_type insert_bang)
                  (wire_position insert_bang) (wire_content insert_bang)
                  (wire_length insert_bang) (id_user alice) 1000 (Some ''socket-1'')"
  have s: "userSessions ?st ''socket-1'' = Some alice \<and>
           activeDocuments ?st ''D'' = Some (example_document ''abc'')"
    by (simp add: example_manager_def)
  have n: "userSessions ?st ''socket-2'' = None"
    by (simp add: example_manager_def)
  note adm = operation_admission [of ?st _ example_uuids "''D''" "Some insert_bang" 1000
      insert_bang alice "example_document ''abc''"]
  from adm [of "''socket-1''"] s
  have queued: "operationQueues
     (on_operation example_uuids ?st ''socket-1'' ''D'' (Some insert_bang) 1000) ''D''
     = Some ((case operationQueues ?st ''D'' of None \<Rightarrow> [] | Some q \<Rightarrow> q) @ [?op])"
    and echoed: "emitted (on_operation example_uuids ?st ''socket-1'' ''D'' (Some insert_bang) 1000)
     = emitted ?st @
       (case fst (transformAgainstOperations example_uuids (Suc (uuid_count ?st)) ?op
                    (drop (length (operations (example_document ''abc'')) - 10)
                       (operations (example_document ''abc'')))) of
          None \<Rightarrow> []
        | Some t \<Rightarrow>
            [OperationImmediate (id_doc (example_document ''abc'')) ''socket-1'' t
               (applyOperation (content_doc (example_document ''abc'')) (Some t)) (Some alice)])"
    by blast+
  have echo: "emitted ?st @
       (case fst (transformAgainstOperations example_uuids (Suc (uuid_count ?st)) ?op
                    (drop (length (operations (example_document ''abc'')) - 10)
                       (operations (example_document ''abc'')))) of
          None \<Rightarrow> []
        | Some t \<Rightarrow>
            [OperationImmediate (id_doc (example_document ''abc'')) ''socket-1'' t
               (applyOperation (content_doc (example_document ''abc'')) (Some t)) (Some alice)])
     = [OperationImmediate ''D'' ''socket-1''
          (new_DocumentOperation ''uuid-'' ''insert'' 3 (Some ''!'') None ''user-1'' 1000
             (Some ''socket-1''))
          ''abc!'' (Some alice)]"
    by code_simp
  from adm [of "''socket-2''"] n
  have "on_operation example_uuids ?st ''socket-2'' ''D'' (Some insert_bang) 1000 = ?st"
    by blast
  with queued echoed [unfolded echo] show ?thesis
    by (simp add: example_manager_def example_uuids_def insert_bang_def alice_def)
qed

text \<open>
  Claim C4 as stated fails: an operation of the unknown kind \<open>bogus\<close> at position -5,
  without content and length, is queued, the timeout is armed, and peers are sent an
  immediate echo.
\<close>

theorem invalid_operation_admitted:
  "operationQueues
     (on_operation example_uuids (example_manager ''abc'' [] False) ''socket-1'' ''D''
        (Some bogus_operation) 1000) ''D''
     = Some [new_DocumentOperation ''uuid-'' ''bogus'' (- 5) None None ''user-1'' 1000
               (Some ''socket-1'')]
   \<and> debouncedSaves
     (on_operation example_uuids (example_manager ''abc'' [] False) ''socket-1'' ''D''
        (Some bogus_operation) 1000) ''D''
     = Some ''socket-1''
   \<and> emitted
     (on_operation example_uuids (example_manager ''abc'' [] False) ''socket-1'' ''D''
        (Some bogus_operation) 1000)
     = [OperationImmediate ''D'' ''socket-1''
          (new_DocumentOperation ''uuid-'' ''bogus'' (- 5) None None ''user-1'' 1000
             (Some ''socket-1''))
          ''abc'' (Some alice)]"
  by code_simp

section \<open>Leaving with queued operations\<close>

text \<open>In \<^verbatim>\<open>removeUserFromDocument\<close> the session read back after its deletion is always
  undefined, so the forced flush is unreachable: the call is the removal of the user
  followed by the save.\<close>

lemma removeUserFromDocument_no_flush:
  "removeUserFromDocument g st d s =
     (case activeDocuments st d of
        None \<Rightarrow> (Inr (), st)
      | Some document \<Rightarrow>
          saveDocument
            (st\<lparr>activeDocuments := (activeDocuments st)
                  (d \<mapsto> document\<lparr>activeUsers := AList.delete s (activeUsers document)\<rparr>),
                userSessions := (userSessions st)(s := None)\<rparr>)
            (document\<lparr>activeUsers := AList.delete s (activeUsers document)\<rparr>))"
  by (simp add: removeUserFromDocument_def Let_def split: option.splits)

text \<open>
  Claim C5. A disconnect never flushes: whatever the state, it leaves every queue and
  every timeout as they were and the content of every document in memory unchanged.
  Example: Alice has one insert queued for \<open>D\<close> and a pending timeout when her socket
  disconnects. Peers get \<^verbatim>\<open>user-left\<close> and \<^verbatim>\<open>users-updated\<close> and no
  \<^verbatim>\<open>document-sync\<close>, the operation is still queued, the timeout is still pending, and
  the content in memory and in the snapshot is still \<open>HELLO\<close>.
\<close>

theorem disconnect_does_not_flush:
  "operationQueues (on_disconnect g st socket) = operationQueues st
   \<and> debouncedSaves (on_disconnect g st socket) = debouncedSaves st
   \<and> map_option content_doc (activeDocuments (on_disconnect g st socket) d)
       = map_option content_doc (activeDocuments st d)
   \<and> emitted (on_disconnect example_uuids (example_manager ''HELLO'' [insert_X] False) ''socket-1'')
     = [UserLeft ''D'' ''socket-1'' alice, UsersUpdated ''D'' []]
   \<and> operationQueues
       (on_disconnect example_uuids (example_manager ''HELLO'' [insert_X] False) ''socket-1'') ''D''
     = Some [insert_X]
   \<and> debouncedSaves
       (on_disconnect example_uuids (example_manager ''HELLO'' [insert_X] False) ''socket-1'') ''D''
     = Some ''socket-1''
   \<and> map_option content_doc
       (activeDocuments
          (on_disconnect example_uuids (example_manager ''HELLO'' [insert_X] False) ''socket-1'')
          ''D'')
     = Some ''HELLO''
   \<and> files (on_disconnect example_uuids (example_manager ''HELLO'' [insert_X] False) ''socket-1'')
       ''D''
     = Some (Snapshot ((example_document ''HELLO'')\<lparr>activeUsers := []\<rparr>))"
proof -
  have general:
    "operationQueues (on_disconnect g st socket) = operationQueues st
     \<and> debouncedSaves (on_disconnect g st socket) = debouncedSaves st
     \<and> map_option content_doc (activeDocuments (on_disconnect g st socket) d)
         = map_option content_doc (activeDocuments st d)"
    by (simp add: on_disconnect_def removeUserFromDocument_no_flush saveDocument_def Let_def
        split: option.splits prod.splits sum.splits)
  have example:
    "emitted (on_disconnect example_uuids (example_manager ''HELLO'' [insert_X] False) ''socket-1'')
       = [UserLeft ''D'' ''socket-1'' alice, UsersUpdated ''D'' []]
     \<and> operationQueues
         (on_disconnect example_uuids (example_manager ''HELLO'' [insert_X] False) ''socket-1'')
         ''D''
       = Some [insert_X]
     \<and> debouncedSaves
         (on_disconnect example_uuids (example_manager ''HELLO'' [insert_X] False) ''socket-1'')
         ''D''
       = Some ''socket-1''
     \<and> map_option content_doc
         (activeDocuments
            (on_disconnect example_uuids (example_manager ''HELLO'' [insert_X] False) ''socket-1'')
            ''D'')
       = Some ''HELLO''
     \<and> files
         (on_disconnect example_uuids (example_manager ''HELLO'' [insert_X] False) ''socket-1'')
         ''D''
       = Some (Snapshot ((example_document ''HELLO'')\<lparr>activeUsers := []\<rparr>))"
    by code_simp
  from general example show ?thesis by simp
qed

section \<open>A flush whose save fails\<close>






section \<open>The version after a flush\<close>

lemma insort_cmp_nonempty: "insort_cmp cmp x ys \<noteq> []"
  by (cases ys) simp_all

lemma sort_cmp_nonempty: "xs \<noteq> [] \<Longrightarrow> sort_cmp cmp xs \<noteq> []"
  by (cases xs) (simp_all add: sort_cmp_def insort_cmp_nonempty)

lemma merge_loop_nonempty: "fst (merge_loop g n current merged rest) \<noteq> []"
  by (induction g n current merged rest rule: merge_loop.induct)
     (auto split: prod.splits)

lemma mergeOperations_nonempty:
  assumes "ops \<noteq> []"
  shows "fst (mergeOperations g n ops) \<noteq> []"
proof (cases ops)
  case Nil
  with assms show ?thesis by simp
next
  case (Cons op rest)
  show ?thesis
  proof (cases rest)
    case Nil
    with Cons show ?thesis by (simp add: mergeOperations_def)
  next
    case (Cons op' rest')
    with \<open>ops = op # rest\<close> sort_cmp_nonempty [of ops]
    show ?thesis
      by (auto simp: mergeOperations_def merge_loop_nonempty split: list.splits prod.splits)
  qed
qed

lemma add_to_group_nonempty: "add_to_group op groups \<noteq> []"
  by (cases groups) (auto split: if_splits)

lemma add_to_group_groups:
  "list_all (\<lambda>(u, ops). ops \<noteq> []) groups \<Longrightarrow>
   list_all (\<lambda>(u, ops). ops \<noteq> []) (add_to_group op groups)"
  by (induction op groups rule: add_to_group.induct) auto

lemma foldl_groups:
  "list_all (\<lambda>(u, ops). ops \<noteq> []) groups \<Longrightarrow>
   list_all (\<lambda>(u, ops). ops \<noteq> []) (foldl (\<lambda>groups op. add_to_group op groups) groups queue)"
  by (induction queue arbitrary: groups) (simp_all add: add_to_group_groups)

lemma foldl_groups_nonempty:
  "groups \<noteq> [] \<or> queue \<noteq> [] \<Longrightarrow> foldl (\<lambda>groups op. add_to_group op groups) groups queue \<noteq> []"
  by (induction queue arbitrary: groups) (simp_all add: add_to_group_nonempty)

lemma merge_groups_nonempty:
  assumes "groups \<noteq> []" "list_all (\<lambda>(u, ops). ops \<noteq> []) groups"
  shows "fst (merge_groups g n groups) \<noteq> []"
proof (cases groups)
  case Nil
  with assms show ?thesis by simp
next
  case (Cons grp rest)
  obtain u userOps where grp: "grp = (u, userOps)" by (cases grp)
  with Cons assms have "userOps \<noteq> []" by simp
  then have "fst (mergeOperations g n userOps) \<noteq> []" by (rule mergeOperations_nonempty)
  then show ?thesis
    by (auto simp: Cons grp split: prod.splits)
qed

lemma transformAgainst_nothing:
  "transformAgainstOperations g n operation [] = (Some (fst (clone g n operation)), Suc n)"
  by (simp add: transformAgainstOperations_def clone_def)

lemma apply_loop_keeps:
  "appliedOperations \<noteq> [] \<Longrightarrow> fst (snd (apply_loop g n s appliedOperations todo)) \<noteq> []"
  by (induction g n s appliedOperations todo rule: apply_loop.induct)
     (auto split: prod.splits option.splits)

lemma apply_loop_first:
  assumes "todo \<noteq> []"
  shows "fst (snd (apply_loop g n s [] todo)) \<noteq> []"
proof (cases todo)
  case Nil
  with assms show ?thesis by simp
next
  case (Cons operation rest)
  then show ?thesis
    by (simp add: transformAgainst_nothing apply_loop_keeps)
qed

lemma flush_batch_applies:
  assumes "queue \<noteq> []"
  shows "fst (snd (flush_batch g n s queue)) \<noteq> []"
proof -
  let ?groups = "operationsByUser queue"
  have "?groups \<noteq> []"
    unfolding operationsByUser_def using assms by (simp add: foldl_groups_nonempty)
  moreover have "list_all (\<lambda>(u, ops). ops \<noteq> []) ?groups"
    unfolding operationsByUser_def by (rule foldl_groups) simp
  ultimately have "fst (merge_groups g n ?groups) \<noteq> []"
    by (rule merge_groups_nonempty)
  then show ?thesis
    by (auto simp: flush_batch_def apply_loop_first sort_cmp_nonempty split: prod.splits)
qed

text \<open>
  Claim C7. A flush of a non-empty queue always applies at least one operation (the
  first one in timestamp order is transformed against nothing, so it is never absorbed)
  and raises the document's version by exactly one, whether or not the save and the
  broadcast succeed. A flush in which every operation is absorbed does not exist.
\<close>

theorem flush_bumps_version:
  assumes "activeDocuments st d = Some document"
    and "operationQueues st d = Some queue"
    and "queue \<noteq> []"
  shows "fst (snd (flush_batch g (uuid_count st) (content_doc document) queue)) \<noteq> []
       \<and> map_option version_doc (activeDocuments (processOperationQueue g st d io) d)
           = Some (version_doc document + 1)"
  using assms flush_batch_applies [OF assms(3), of g "uuid_count st" "content_doc document"]
  by (simp add: processOperationQueue_def saveDocument_def Let_def split: prod.splits)

text \<open>
  An instance: flushing the two inserts into \<open>HELLO\<close> takes the version from 1 to 2.
\<close>

theorem flush_bumps_version_witness:
  "fst (snd (flush_batch example_uuids 0 ''HELLO'' [insert_X, insert_Y])) \<noteq> []
   \<and> map_option version_doc
       (activeDocuments
          (processOperationQueue example_uuids
             (example_manager ''HELLO'' [insert_X, insert_Y] False) ''D'' True) ''D'')
     = Some 2
   \<and> map_option content_doc
       (activeDocuments
          (processOperationQueue example_uuids
             (example_manager ''HELLO'' [insert_X, insert_Y] False) ''D'' True) ''D'')
     = Some ''HELLOXY''"
proof -
  let ?st = "example_manager ''HELLO'' [insert_X, insert_Y] False"
  have doc: "activeDocuments ?st ''D'' = Some (example_document ''HELLO'')"
    and queue: "operationQueues ?st ''D'' = Some [insert_X, insert_Y]"
    and ne: "[insert_X, insert_Y] \<noteq> []"
    by (simp_all add: example_manager_def)
  from flush_bumps_version [OF doc queue ne, of example_uuids True]
  have "fst (snd (flush_batch example_uuids 0 ''HELLO'' [insert_X, insert_Y])) \<noteq> []
      \<and> map_option version_doc (activeDocuments (processOperationQueue example_uuids ?st ''D'' True) ''D'')
        = Some 2"
    by (simp add: example_manager_def example_document_def)
  moreover have "map_option content_doc
       (activeDocuments (processOperationQueue example_uuids ?st ''D'' True) ''D'')
     = Some ''HELLOXY''"
    by code_simp
  ultimately show ?thesis by simp
qed

section \<open>Absorption of emptied operations\<close>

text \<open>
  Claim C8. A delete of 2 at 2 against a replace of 4 at 1 lies inside the replaced range:
  \<^verbatim>\<open>transform\<close> returns it as a delete of length 0, not as absent. The same happens to
  the delete when the replace is the first argument.
\<close>

theorem zero_length_not_absorbed:
  "transform example_uuids 0
     (new_DocumentOperation ''op-1'' ''delete'' 2 None (Some 2) ''user-1'' 10 None)
     (new_DocumentOperation ''op-2'' ''replace'' 1 (Some ''X'') (Some 4) ''user-2'' 11 None) True
     = (Some (new_DocumentOperation ''uuid-'' ''delete'' 2 None (Some 0) ''user-1'' 10 None),
        Some (new_DocumentOperation ''op-2'' ''replace'' 1 (Some ''X'') (Some 4) ''user-2'' 11 None),
        1)
   \<and> transform example_uuids 0
     (new_DocumentOperation ''op-2'' ''replace'' 1 (Some ''X'') (Some 4) ''user-2'' 11 None)
     (new_DocumentOperation ''op-1'' ''delete'' 2 None (Some 2) ''user-1'' 10 None) True
     = (Some (new_DocumentOperation ''op-2'' ''replace'' 1 (Some ''X'') (Some 4) ''user-2'' 11 None),
        Some (new_DocumentOperation ''uuid-'' ''delete'' 1 None (Some 0) ''user-1'' 10 None),
        1)"
  by code_simp

section \<open>Applying an absent or applied operation\<close>

text \<open>
  Claim C9. \<^verbatim>\<open>applyOperation\<close> returns the text unchanged for an absent operation
  and for every operation whose applied flag is set, whatever its kind and fields; so the
  relation between the lengths fails for such an operation: the applied insert of \<open>X\<close>
  leaves \<open>HELLO\<close> at length 5, not 6.
\<close>

theorem apply_skips_absent_and_applied:
  "applyOperation s None = s
   \<and> (applied op \<longrightarrow> applyOperation s (Some op) = s)
   \<and> int (length (applyOperation ''HELLO'' (Some (insert_X\<lparr>applied := True\<rparr>))))
       \<noteq> int (length ''HELLO'') + content_length_or_0 (insert_X\<lparr>applied := True\<rparr>)
           - length_or_0 (insert_X\<lparr>applied := True\<rparr>)"
proof -
  have "int (length (applyOperation ''HELLO'' (Some (insert_X\<lparr>applied := True\<rparr>))))
       \<noteq> int (length ''HELLO'') + content_length_or_0 (insert_X\<lparr>applied := True\<rparr>)
           - length_or_0 (insert_X\<lparr>applied := True\<rparr>)"
    by code_simp
  then show ?thesis by (simp add: applyOperation_def)
qed

text \<open>
  An instance: the delete of 4 at 2 turns \<open>0123456789\<close> into \<open>016789\<close>, and leaves it
  alone once its applied flag is set.
\<close>

theorem apply_skips_applied_witness:
  "applied (scenario_C_U1\<lparr>applied := True\<rparr>)
   \<and> applyOperation ''0123456789'' (Some (scenario_C_U1\<lparr>applied := True\<rparr>)) = ''0123456789''
   \<and> applyOperation ''0123456789'' (Some scenario_C_U1) = ''016789''"
proof -
  have a: "applied (scenario_C_U1\<lparr>applied := True\<rparr>)" by simp
  from apply_skips_absent_and_applied [of "''0123456789''" "scenario_C_U1\<lparr>applied := True\<rparr>"] a
  have "applyOperation ''0123456789'' (Some (scenario_C_U1\<lparr>applied := True\<rparr>)) = ''0123456789''"
    by blast
  moreover have "applyOperation ''0123456789'' (Some scenario_C_U1) = ''016789''"
    by code_simp
  ultimately show ?thesis using a by simp
qed

section \<open>Operations built by transform\<close>

lemma rebuilt_copy_rebuilt: "rebuilt_copy u op (rebuilt u op pos len)"
  by (simp add: rebuilt_copy_def rebuilt_def new_DocumentOperation_def)

lemma output_same: "transform_output g n n' op (Some op)"
  by (simp add: transform_output_def)

lemma output_none: "transform_output g n n' op None"
  by (simp add: transform_output_def)

lemma output_first: "transform_output g n (Suc n) op (Some (rebuilt (g n) op pos len))"
  by (simp add: transform_output_def rebuilt_copy_rebuilt)

lemma output_first2: "transform_output g n (Suc (Suc n)) op (Some (rebuilt (g n) op pos len))"
  by (simp add: transform_output_def rebuilt_copy_rebuilt upt_rec)

lemma output_second:
  "transform_output g n (Suc (Suc n)) op (Some (rebuilt (g (Suc n)) op pos len))"
  by (simp add: transform_output_def rebuilt_copy_rebuilt upt_rec)

lemmas output_intros = output_same output_none output_first output_first2 output_second

lemma ok_InsertInsert: "outputs_ok g n op1 op2 (transformInsertInsert g n op1 op2 p)"
  by (simp add: outputs_ok_def transformInsertInsert_def output_intros)

lemma ok_InsertDelete: "outputs_ok g n op1 op2 (transformInsertDelete g n op1 op2)"
  by (simp add: outputs_ok_def transformInsertDelete_def output_intros)

lemma ok_InsertReplace: "outputs_ok g n op1 op2 (transformInsertReplace g n op1 op2)"
  by (simp add: outputs_ok_def transformInsertReplace_def output_intros)

lemma ok_DeleteInsert: "outputs_ok g n op1 op2 (transformDeleteInsert g n op1 op2)"
  by (simp add: outputs_ok_def transformDeleteInsert_def output_intros)

lemma ok_DeleteDelete: "outputs_ok g n op1 op2 (transformDeleteDelete g n op1 op2)"
  by (simp add: outputs_ok_def transformDeleteDelete_def output_intros Let_def)

lemma ok_DeleteReplace: "outputs_ok g n op1 op2 (transformDeleteReplace g n op1 op2)"
  by (simp add: outputs_ok_def transformDeleteReplace_def output_intros Let_def)

lemma ok_ReplaceInsert: "outputs_ok g n op1 op2 (transformReplaceInsert g n op1 op2)"
  by (simp add: outputs_ok_def transformReplaceInsert_def output_intros)

lemma ok_ReplaceDelete: "outputs_ok g n op1 op2 (transformReplaceDelete g n op1 op2)"
  by (simp add: outputs_ok_def transformReplaceDelete_def output_intros Let_def)

lemma ok_ReplaceReplace: "outputs_ok g n op1 op2 (transformReplaceReplace g n op1 op2 p)"
  by (simp add: outputs_ok_def transformReplaceReplace_def output_intros)

lemma ok_unchanged: "outputs_ok g n op1 op2 (Some op1, Some op2, n)"
  by (simp add: outputs_ok_def output_intros)

lemma ok_duplicate: "outputs_ok g n op1 op2 (Some op1, None, n)"
  by (simp add: outputs_ok_def output_intros)

lemmas ok_intros = ok_InsertInsert ok_InsertDelete ok_InsertReplace ok_DeleteInsert
  ok_DeleteDelete ok_DeleteReplace ok_ReplaceInsert ok_ReplaceDelete ok_ReplaceReplace
  ok_unchanged ok_duplicate

lemma ok_transform: "outputs_ok g n op1 op2 (transform g n op1 op2 p)"
  unfolding transform_def Let_def
  by (simp only: ok_intros if_split [where P = "outputs_ok g n op1 op2"] simp_thms
      if_True if_False)

lemma output_id:
  assumes out: "transform_output g n n' orig (Some new)" and new: "new \<noteq> orig"
    and fresh: "\<And>k. n \<le> k \<Longrightarrow> g k \<noteq> x"
  shows "id_op new \<noteq> x"
proof -
  from out new obtain k where "n \<le> k" "rebuilt_copy (g k) orig new"
    by (auto simp: transform_output_def list_ex_iff)
  then have "id_op new = g k" "g k \<noteq> x"
    using fresh by (simp_all add: rebuilt_copy_def)
  then show ?thesis by simp
qed

text \<open>
  Claim C10. Each output of \<^verbatim>\<open>transform\<close> is absent, the input object itself, or a
  new operation with the input's kind, content, userId, timestamp and clientId, an
  identifier drawn during the call, version 1 and the applied flag unset. When the
  identifiers drawn are new (none equals the id of an input), an output that is not the
  input object has an id different from both inputs' ids, so the equal-id test of
  \<^verbatim>\<open>transform\<close> does not recognise it as its original.
\<close>

theorem transform_builds_fresh_copies:
  assumes t: "transform g n op1 op2 p = (r1, r2, n')"
    and fresh: "\<And>k. n \<le> k \<Longrightarrow> g k \<noteq> id_op op1 \<and> g k \<noteq> id_op op2"
  shows "transform_output g n n' op1 r1 \<and> transform_output g n n' op2 r2
       \<and> (\<forall>new. r1 = Some new \<and> new \<noteq> op1 \<longrightarrow>
             id_op new \<noteq> id_op op1 \<and> id_op new \<noteq> id_op op2)
       \<and> (\<forall>new. r2 = Some new \<and> new \<noteq> op2 \<longrightarrow>
             id_op new \<noteq> id_op op1 \<and> id_op new \<noteq> id_op op2)"
proof -
  from ok_transform [of g n op1 op2 p] t
  have o: "transform_output g n n' op1 r1" "transform_output g n n' op2 r2"
    by (simp_all add: outputs_ok_def)
  have f1: "\<And>k. n \<le> k \<Longrightarrow> g k \<noteq> id_op op1" and f2: "\<And>k. n \<le> k \<Longrightarrow> g k \<noteq> id_op op2"
    using fresh by simp_all
  have "id_op new \<noteq> id_op op1 \<and> id_op new \<noteq> id_op op2"
    if "r1 = Some new \<and> new \<noteq> op1" for new
    using that o(1) output_id [of g n n' op1 new, OF _ _ f1]
      output_id [of g n n' op1 new, OF _ _ f2] by blast
  moreover have "id_op new \<noteq> id_op op1 \<and> id_op new \<noteq> id_op op2"
    if "r2 = Some new \<and> new \<noteq> op2" for new
    using that o(2) output_id [of g n n' op2 new, OF _ _ f1]
      output_id [of g n n' op2 new, OF _ _ f2] by blast
  ultimately show ?thesis using o by blast
qed

text \<open>
  An instance: the insert of \<open>Y\<close> at 5, transformed against the insert of \<open>X\<close> at 5,
  becomes a copy at 6 with the id \<open>uuid-\<close> instead of \<open>op-2\<close>.
\<close>

theorem transform_builds_fresh_copies_witness:
  "transform example_uuids 0 insert_X insert_Y True
     = (Some insert_X, Some (rebuilt ''uuid-'' insert_Y 6 None), 1)
   \<and> transform_output example_uuids 0 1 insert_Y (Some (rebuilt ''uuid-'' insert_Y 6 None))
   \<and> id_op (rebuilt ''uuid-'' insert_Y 6 None) \<noteq> id_op insert_Y"
proof -
  have t: "transform example_uuids 0 insert_X insert_Y True
     = (Some insert_X, Some (rebuilt ''uuid-'' insert_Y 6 None), 1)"
    by code_simp
  have fresh: "\<And>k. 0 \<le> k \<Longrightarrow>
      example_uuids k \<noteq> id_op insert_X \<and> example_uuids k \<noteq> id_op insert_Y"
    by (simp add: example_uuids_def insert_X_def insert_Y_def new_DocumentOperation_def)
  have new: "rebuilt ''uuid-'' insert_Y 6 None \<noteq> insert_Y"
    by (simp add: rebuilt_def insert_Y_def new_DocumentOperation_def)
  from transform_builds_fresh_copies [OF t fresh] new
  have "transform_output example_uuids 0 1 insert_Y (Some (rebuilt ''uuid-'' insert_Y 6 None))"
    and "id_op (rebuilt ''uuid-'' insert_Y 6 None) \<noteq> id_op insert_Y"
    by blast+
  with t show ?thesis by simp
qed

end
